theory Spec2Isabelle
  imports Complex_Main "HOL-Library.List_Lexorder" "HOL-Library.Char_ord" "HOL-Library.Multiset"
begin

section \<open>The DJ leaderboard of the tipping backend\<close>

text \<open>
  The backend is one canister file, \<^verbatim>\<open>src/dfinity_js_backend/src/index.ts\<close>, present in
  three revisions:
  \<^item> the \<^emph>\<open>float64 revision\<close> (lines 619-1174 of \<^verbatim>\<open>index.ts\<close>): a leaderboard entry has
    \<^verbatim>\<open>total_rating_points\<close> and \<^verbatim>\<open>avg_rating: float64\<close>. Its functions keep the source names.
  \<^item> the \<^emph>\<open>nat64 revision\<close> (lines 1-618 of \<^verbatim>\<open>index.ts\<close>): \<^verbatim>\<open>avg_rating: nat64\<close>, no
    \<^verbatim>\<open>total_rating_points\<close>; it is the only one with \<^verbatim>\<open>getLeaderboardForTopDJs\<close>. Its
    functions and fields carry the suffix \<open>_nat\<close>.
  \<^item> the \<^emph>\<open>gated revision\<close> (\<^verbatim>\<open>unnamed/part_001\<close>): the nat64 revision with caller checks;
    its \<^verbatim>\<open>createRating\<close> and \<^verbatim>\<open>searchDJsByRating\<close> are the nat64 revision's, line for line.
    Its \<^verbatim>\<open>createTip\<close> carries the suffix \<open>_gated\<close>.

  Conventions of the embedding:
  \<^item> \<^verbatim>\<open>nat64\<close> values are JavaScript BigInts in the handlers; BigInt arithmetic is exact,
    so they are \<^typ>\<open>nat\<close> (\<open>div\<close> is BigInt division on non-negative operands). The
    handlers never reduce a value modulo \<open>2^64\<close>; a counter beyond \<open>2^64 - 1\<close> could not
    be stored as \<^verbatim>\<open>nat64\<close>, and the embedding does not go that far.
  \<^item> \<^verbatim>\<open>float64\<close> values are \<^typ>\<open>rat\<close>: \<^verbatim>\<open>Number(a) / Number(b)\<close> is the exact quotient, that
    is, the embedding abstracts from floating-point rounding.
  \<^item> \<^verbatim>\<open>uuidv4()\<close> and \<^verbatim>\<open>ic.time()\<close> are inputs of each call.
  \<^item> an \<^verbatim>\<open>Err({Tag: message})\<close> is the tag; the message text is not kept.
  \<^item> only the four stores the leaderboard operations touch are part of the state.
\<close>

subsection \<open>Strings\<close>

text \<open>\<^verbatim>\<open>String.prototype.trim\<close> and \<^verbatim>\<open>toLowerCase\<close>, on ASCII text.\<close>

definition isSpace :: "char \<Rightarrow> bool" where
  "isSpace c \<longleftrightarrow> c \<in> set [CHR 0x09, CHR 0x0A, CHR 0x0B, CHR 0x0C, CHR 0x0D, CHR '' '']"

definition trim :: "string \<Rightarrow> string" where
  "trim s = rev (dropWhile isSpace (rev (dropWhile isSpace s)))"

definition toLowerChar :: "char \<Rightarrow> char" where
  "toLowerChar c =
     (case map_of (zip ''ABCDEFGHIJKLMNOPQRSTUVWXYZ'' ''abcdefghijklmnopqrstuvwxyz'') c of
        Some d \<Rightarrow> d
      | None \<Rightarrow> c)"

definition toLowerCase :: "string \<Rightarrow> string" where
  "toLowerCase s = map toLowerChar s"

subsection \<open>The key-value store\<close>

text \<open>
  \<^verbatim>\<open>StableBTreeMap\<close> comes from the azle library. Its contract: \<^verbatim>\<open>get\<close> by key,
  \<^verbatim>\<open>insert\<close> adds or replaces the value of a key, \<^verbatim>\<open>values()\<close> lists the values in
  ascending key order. The map stores a \<^verbatim>\<open>text\<close> key as its Candid encoding and orders
  keys by these bytes: after a header that all text keys share come the length of the
  text in LEB128 and the bytes of the text. So a shorter name is listed before a longer
  one (up to 127 bytes), and names of one length are listed byte-wise: \<open>Cy\<close> comes
  before \<open>Ann\<close>. The model is an association list kept in that order.
\<close>

function leb128 :: "nat \<Rightarrow> nat list" where
  "leb128 n = (if n < 128 then [n] else (n mod 128 + 128) # leb128 (n div 128))"
  by pat_completeness auto
termination
  by (relation "measure id") auto

declare leb128.simps [simp del]

text \<open>The bytes of an encoded text key after the shared header.\<close>

definition key_bytes :: "string \<Rightarrow> nat list" where
  "key_bytes k = leb128 (length k) @ map of_char k"

definition key_less :: "string \<Rightarrow> string \<Rightarrow> bool" where
  "key_less a b \<longleftrightarrow> key_bytes a < key_bytes b"

type_synonym 'v StableBTreeMap = "(string \<times> 'v) list"

definition btree_get :: "'v StableBTreeMap \<Rightarrow> string \<Rightarrow> 'v option" where
  "btree_get m k = map_of m k"

fun btree_insert :: "string \<Rightarrow> 'v \<Rightarrow> 'v StableBTreeMap \<Rightarrow> 'v StableBTreeMap" where
  "btree_insert k v [] = [(k, v)]"
| "btree_insert k v ((a, b) # m) =
     (if key_less k a then (k, v) # (a, b) # m
      else if k = a then (k, v) # m
      else (a, b) # btree_insert k v m)"

definition btree_values :: "'v StableBTreeMap \<Rightarrow> 'v list" where
  "btree_values m = map snd m"

subsection \<open>Records and variants\<close>

datatype TipStatus = Pending | Completed

datatype UserStatus = Active | Deactivated

datatype UserRole = RegularUser | Admin | DJ

record User =
  u_id :: string
  u_name :: string
  u_contact :: string
  u_created_at :: nat
  u_status :: UserStatus
  u_role :: UserRole
  u_points :: nat

record Tip =
  tip_id :: string
  tip_user_id :: string
  tip_dj_name :: string
  tip_amount :: nat
  tip_status :: TipStatus
  tip_created_at :: nat

record Rating =
  rating_id :: string
  rating_user_id :: string
  rating_dj_name :: string
  rating_value :: nat
  rating_review :: string
  rating_created_at :: nat

text \<open>The float64 revision's entry (lines 701-707).\<close>

record LeaderboardEntry =
  dj_name :: string
  total_tips :: nat
  total_ratings :: nat
  total_rating_points :: nat
  avg_rating :: rat

text \<open>
  The error variant. \<open>Success\<close> is declared by the nat64 revision only; \<open>Unauthorized\<close> is
  returned by the gated revision.
\<close>

datatype Error =
    Success
  | Error
  | NotFound
  | InvalidPayload
  | PaymentFailed
  | PaymentCompleted
  | Unauthorized

record State =
  usersStorage :: "User StableBTreeMap"
  tipsStorage :: "Tip StableBTreeMap"
  ratingsStorage :: "Rating StableBTreeMap"
  leaderboardStorage :: "LeaderboardEntry StableBTreeMap"

subsection \<open>The float64 revision\<close>

text \<open>
  The DJ lookup shared by \<^verbatim>\<open>createTip\<close> (lines 897-901), \<^verbatim>\<open>createRating\<close> (965-969) and
  \<^verbatim>\<open>searchDJsByRating\<close> (1143-1148): the first user, in key order, whose lower-cased name
  is the lower-cased \<open>nm\<close> and whose role is DJ.
\<close>

definition findDJ :: "string \<Rightarrow> User StableBTreeMap \<Rightarrow> User option" where
  "findDJ nm users =
     find (\<lambda>dj. toLowerCase (u_name dj) = toLowerCase nm \<and> u_role dj = DJ) (btree_values users)"

text \<open>"Update leaderboard" of \<^verbatim>\<open>createTip\<close> (lines 919-934), \<open>key\<close> being \<^verbatim>\<open>dj_name.trim()\<close>.\<close>

definition tipLeaderboard ::
  "string \<Rightarrow> nat \<Rightarrow> LeaderboardEntry StableBTreeMap \<Rightarrow> LeaderboardEntry StableBTreeMap" where
  "tipLeaderboard key amount lb =
     (case btree_get lb key of
        Some leaderboardEntry \<Rightarrow>
          btree_insert key
            (leaderboardEntry\<lparr>total_tips := total_tips leaderboardEntry + amount\<rparr>) lb
      | None \<Rightarrow>
          btree_insert key
            \<lparr>dj_name = key, total_tips = amount, total_ratings = 0,
             total_rating_points = 0, avg_rating = 0\<rparr> lb)"

text \<open>\<^verbatim>\<open>createTip\<close> (lines 874-938).\<close>

definition createTip :: "Tip \<Rightarrow> string \<Rightarrow> nat \<Rightarrow> State \<Rightarrow> (Error + Tip) \<times> State" where
  "createTip payload tipId now s =
     (let user_id = tip_user_id payload;
          djName = tip_dj_name payload;
          amount = tip_amount payload
      in if djName = [] \<or> user_id = [] \<or> trim djName = [] \<or> amount \<le> 0
         then (Inl InvalidPayload, s)
         else
           (case btree_get (usersStorage s) user_id of
              None \<Rightarrow> (Inl NotFound, s)
            | Some user \<Rightarrow>
                if u_role user = DJ then (Inl InvalidPayload, s)
                else
                  (case findDJ (trim djName) (usersStorage s) of
                     None \<Rightarrow> (Inl NotFound, s)
                   | Some djOpt \<Rightarrow>
                       let tip = \<lparr>tip_id = tipId, tip_user_id = user_id,
                                  tip_dj_name = trim djName, tip_amount = amount,
                                  tip_status = Pending, tip_created_at = now\<rparr>
                       in (Inr tip,
                           s\<lparr>tipsStorage := btree_insert tipId tip (tipsStorage s),
                             leaderboardStorage :=
                               tipLeaderboard (trim djName) amount (leaderboardStorage s)\<rparr>))))"

text \<open>"Update leaderboard" of \<^verbatim>\<open>createRating\<close> (lines 987-1006).\<close>

definition rateLeaderboard ::
  "string \<Rightarrow> nat \<Rightarrow> LeaderboardEntry StableBTreeMap \<Rightarrow> LeaderboardEntry StableBTreeMap" where
  "rateLeaderboard key rating lb =
     (case btree_get lb key of
        Some leaderboardEntry \<Rightarrow>
          let e1 = leaderboardEntry\<lparr>total_ratings := total_ratings leaderboardEntry + 1\<rparr>;
              e2 = e1\<lparr>total_rating_points := total_rating_points e1 + rating\<rparr>;
              e3 = e2\<lparr>avg_rating :=
                        rat_of_nat (total_rating_points e2) / rat_of_nat (total_ratings e2)\<rparr>
          in btree_insert key e3 lb
      | None \<Rightarrow>
          btree_insert key
            \<lparr>dj_name = key, total_tips = 0, total_ratings = 1,
             total_rating_points = rating, avg_rating = rat_of_nat rating\<rparr> lb)"

text \<open>\<^verbatim>\<open>createRating\<close> (lines 941-1010).\<close>

definition createRating :: "Rating \<Rightarrow> string \<Rightarrow> nat \<Rightarrow> State \<Rightarrow> (Error + Rating) \<times> State" where
  "createRating payload ratingId now s =
     (let djName = rating_dj_name payload;
          rating = rating_value payload;
          user_id = rating_user_id payload;
          review = rating_review payload
      in if djName = [] \<or> user_id = [] \<or> trim djName = [] \<or> rating < 1 \<or> rating > 5
         then (Inl InvalidPayload, s)
         else
           (case btree_get (usersStorage s) user_id of
              None \<Rightarrow> (Inl NotFound, s)
            | Some user \<Rightarrow>
                (case findDJ (trim djName) (usersStorage s) of
                   None \<Rightarrow> (Inl NotFound, s)
                 | Some djOpt \<Rightarrow>
                     let newRating = \<lparr>rating_id = ratingId, rating_user_id = user_id,
                                      rating_dj_name = trim djName, rating_value = rating,
                                      rating_review = (if review = [] then [] else review),
                                      rating_created_at = now\<rparr>
                     in (Inr newRating,
                         s\<lparr>ratingsStorage := btree_insert ratingId newRating (ratingsStorage s),
                           leaderboardStorage :=
                             rateLeaderboard (trim djName) rating (leaderboardStorage s)\<rparr>))))"

text \<open>
  The loop of \<^verbatim>\<open>searchDJsByRating\<close> (lines 1141-1152): each name that resolves to a DJ
  profile is pushed, a name that does not is skipped.
\<close>

fun resolveDJs :: "string list \<Rightarrow> User StableBTreeMap \<Rightarrow> User list" where
  "resolveDJs [] users = []"
| "resolveDJs (djName # djNames) users =
     (case findDJ djName users of
        Some djOpt \<Rightarrow> djOpt # resolveDJs djNames users
      | None \<Rightarrow> resolveDJs djNames users)"

text \<open>\<^verbatim>\<open>searchDJsByRating\<close> (lines 1131-1160).\<close>

definition searchDJsByRating :: "rat \<Rightarrow> State \<Rightarrow> Error + User list" where
  "searchDJsByRating rating s =
     (let leaderboardEntries = btree_values (leaderboardStorage s);
          djNames = map dj_name (filter (\<lambda>entry. avg_rating entry \<ge> rating) leaderboardEntries);
          djs = resolveDJs djNames (usersStorage s)
      in if length djs = 0 then Inl NotFound else Inr djs)"

text \<open>\<^verbatim>\<open>getLeaderboard\<close> (lines 1163-1173).\<close>

definition getLeaderboard :: "State \<Rightarrow> Error + LeaderboardEntry list" where
  "getLeaderboard s =
     (let entries = btree_values (leaderboardStorage s)
      in if length entries = 0 then Inl NotFound else Inr entries)"

subsection \<open>The nat64 revision\<close>

text \<open>
  The entry of lines 98-103, the payloads the handlers take and the stores they use.
  The nat64 copy in \<^verbatim>\<open>index.ts\<close> declares \<^verbatim>\<open>usersStorage\<close> and \<^verbatim>\<open>leaderboardStorage\<close>
  (lines 136-138) and uses \<^verbatim>\<open>tipsStorage\<close>, \<^verbatim>\<open>ratingsStorage\<close>, \<^verbatim>\<open>TipPayload\<close> and
  \<^verbatim>\<open>RatingPayload\<close> without declaring them; their declarations are those of part_001
  (lines 146-150, 162-167, 187 and 190).
\<close>

record LeaderboardEntry_nat =
  dj_name_nat :: string
  total_tips_nat :: nat
  total_ratings_nat :: nat
  avg_rating_nat :: nat

record TipPayload =
  tp_dj_name :: string
  tp_amount :: nat
  tp_user_id :: string

record RatingPayload =
  rp_dj_name :: string
  rp_rating :: nat
  rp_review :: string
  rp_user_id :: string

record State_nat =
  usersStorage_nat :: "User StableBTreeMap"
  tipsStorage_nat :: "Tip StableBTreeMap"
  ratingsStorage_nat :: "Rating StableBTreeMap"
  leaderboardStorage_nat :: "LeaderboardEntry_nat StableBTreeMap"

text \<open>The DJ lookup of \<^verbatim>\<open>createTip\<close> (lines 364-366): by lower-cased name only.\<close>

definition findDJ_nat :: "string \<Rightarrow> User StableBTreeMap \<Rightarrow> User option" where
  "findDJ_nat nm users =
     find (\<lambda>dj. toLowerCase (u_name dj) = toLowerCase nm) (btree_values users)"

text \<open>"Update the leaderboard entry for the DJ" of \<^verbatim>\<open>createTip\<close> (lines 388-404).\<close>

definition tipLeaderboard_nat ::
  "string \<Rightarrow> nat \<Rightarrow> LeaderboardEntry_nat StableBTreeMap \<Rightarrow> LeaderboardEntry_nat StableBTreeMap"
  where
  "tipLeaderboard_nat key amount lb =
     (case btree_get lb key of
        Some leaderboardEntry \<Rightarrow>
          btree_insert key
            (leaderboardEntry\<lparr>total_tips_nat := total_tips_nat leaderboardEntry + amount\<rparr>) lb
      | None \<Rightarrow>
          btree_insert key
            \<lparr>dj_name_nat = key, total_tips_nat = amount, total_ratings_nat = 0,
             avg_rating_nat = 0\<rparr> lb)"

text \<open>\<^verbatim>\<open>createTip\<close> (lines 345-407).\<close>

definition createTip_nat ::
  "TipPayload \<Rightarrow> string \<Rightarrow> nat \<Rightarrow> State_nat \<Rightarrow> (Error + Tip) \<times> State_nat" where
  "createTip_nat payload tipId now s =
     (if tp_dj_name payload = [] \<or> tp_amount payload \<le> 0 \<or> tp_user_id payload = []
      then (Inl InvalidPayload, s)
      else
        (case btree_get (usersStorage_nat s) (tp_user_id payload) of
           None \<Rightarrow> (Inl NotFound, s)
         | Some user \<Rightarrow>
             if u_role user = DJ then (Inl InvalidPayload, s)
             else
               (case findDJ_nat (tp_dj_name payload) (usersStorage_nat s) of
                  None \<Rightarrow> (Inl NotFound, s)
                | Some djOpt \<Rightarrow>
                    let tip = \<lparr>tip_id = tipId, tip_user_id = tp_user_id payload,
                               tip_dj_name = tp_dj_name payload, tip_amount = tp_amount payload,
                               tip_status = Pending, tip_created_at = now\<rparr>
                    in (Inr tip,
                        s\<lparr>tipsStorage_nat := btree_insert tipId tip (tipsStorage_nat s),
                          leaderboardStorage_nat :=
                            tipLeaderboard_nat (tp_dj_name payload) (tp_amount payload)
                              (leaderboardStorage_nat s)\<rparr>))))"

text \<open>
  "Update the leaderboard entry for the DJ" of \<^verbatim>\<open>createRating\<close> (lines 490-514; the same
  text is lines 511-535 of the gated revision). The new average is
  \<^verbatim>\<open>(avg_rating * total_ratings) / (total_ratings + 1n)\<close>, a BigInt division.
\<close>

definition rateLeaderboard_nat ::
  "string \<Rightarrow> nat \<Rightarrow> LeaderboardEntry_nat StableBTreeMap \<Rightarrow> LeaderboardEntry_nat StableBTreeMap"
  where
  "rateLeaderboard_nat key rating lb =
     (case btree_get lb key of
        Some leaderboardEntry \<Rightarrow>
          let total_ratings = total_ratings_nat leaderboardEntry + 1;
              avg_rating =
                (avg_rating_nat leaderboardEntry * total_ratings_nat leaderboardEntry)
                  div total_ratings
          in btree_insert key
               (leaderboardEntry\<lparr>total_ratings_nat := total_ratings,
                                 avg_rating_nat := avg_rating\<rparr>) lb
      | None \<Rightarrow>
          btree_insert key
            \<lparr>dj_name_nat = key, total_tips_nat = 0, total_ratings_nat = 1,
             avg_rating_nat = rating\<rparr> lb)"

text \<open>\<^verbatim>\<open>createRating\<close> (lines 462-517; lines 483-538 of the gated revision).\<close>

definition createRating_nat ::
  "RatingPayload \<Rightarrow> string \<Rightarrow> nat \<Rightarrow> State_nat \<Rightarrow> (Error + Rating) \<times> State_nat" where
  "createRating_nat payload ratingId now s =
     (if rp_dj_name payload = [] \<or> rp_user_id payload = []
      then (Inl InvalidPayload, s)
      else
        (case btree_get (usersStorage_nat s) (rp_user_id payload) of
           None \<Rightarrow> (Inl NotFound, s)
         | Some user \<Rightarrow>
             let newRating = \<lparr>rating_id = ratingId, rating_user_id = rp_user_id payload,
                              rating_dj_name = rp_dj_name payload,
                              rating_value = rp_rating payload,
                              rating_review = rp_review payload, rating_created_at = now\<rparr>
             in (Inr newRating,
                 s\<lparr>ratingsStorage_nat := btree_insert ratingId newRating (ratingsStorage_nat s),
                   leaderboardStorage_nat :=
                     rateLeaderboard_nat (rp_dj_name payload) (rp_rating payload)
                       (leaderboardStorage_nat s)\<rparr>)))"

text \<open>
  \<^verbatim>\<open>searchDJsByRating\<close> (lines 595-608; lines 616-629 of the gated revision). Each entry
  that passes the filter is mapped to \<^verbatim>\<open>usersStorage.get(entry.dj_name).Some\<close>: the user
  stored under the key \<^verbatim>\<open>entry.dj_name\<close>, or JavaScript's \<^verbatim>\<open>undefined\<close> when \<^verbatim>\<open>get\<close>
  returned \<^verbatim>\<open>None\<close>. An element of the result is therefore a \<^typ>\<open>User option\<close>, \<open>None\<close>
  standing for \<^verbatim>\<open>undefined\<close>.
\<close>

definition searchDJsByRating_nat :: "nat \<Rightarrow> State_nat \<Rightarrow> Error + User option list" where
  "searchDJsByRating_nat rating s =
     (let leaderboardEntries = btree_values (leaderboardStorage_nat s);
          djs = map (\<lambda>entry. btree_get (usersStorage_nat s) (dj_name_nat entry))
                  (filter (\<lambda>entry. avg_rating_nat entry \<ge> rating) leaderboardEntries)
      in if length djs = 0 then Inl NotFound else Inr djs)"

text \<open>
  \<^verbatim>\<open>Array.prototype.sort\<close> with a comparator: the sort is stable, an element goes before
  another when the comparator is negative and keeps its place relative to it when the
  comparator is zero. Insertion from the right gives exactly that order.
\<close>

fun array_insert :: "('a \<Rightarrow> 'a \<Rightarrow> int) \<Rightarrow> 'a \<Rightarrow> 'a list \<Rightarrow> 'a list" where
  "array_insert cmp x [] = [x]"
| "array_insert cmp x (y # ys) =
     (if cmp x y \<le> 0 then x # y # ys else y # array_insert cmp x ys)"

fun array_sort :: "('a \<Rightarrow> 'a \<Rightarrow> int) \<Rightarrow> 'a list \<Rightarrow> 'a list" where
  "array_sort cmp [] = []"
| "array_sort cmp (x # xs) = array_insert cmp x (array_sort cmp xs)"

text \<open>
  The comparator of \<^verbatim>\<open>getLeaderboardForTopDJs\<close> (lines 275-280). It returns
  \<^verbatim>\<open>Number\<close> of a BigInt difference, which has the sign of the difference.
\<close>

definition compareDJs :: "LeaderboardEntry_nat \<Rightarrow> LeaderboardEntry_nat \<Rightarrow> int" where
  "compareDJs a b =
     (if total_tips_nat b = total_tips_nat a
      then int (avg_rating_nat b) - int (avg_rating_nat a)
      else int (total_tips_nat b) - int (total_tips_nat a))"

text \<open>\<^verbatim>\<open>getLeaderboardForTopDJs\<close> (lines 273-282).\<close>

definition getLeaderboardForTopDJs :: "State_nat \<Rightarrow> Error + LeaderboardEntry_nat list" where
  "getLeaderboardForTopDJs s =
     (let leaderboard = btree_values (leaderboardStorage_nat s);
          topDJs = array_sort compareDJs leaderboard
      in Inr (take 5 topDJs))"

subsection \<open>The gated revision's \<^verbatim>\<open>createTip\<close>\<close>

text \<open>
  The loop \<^verbatim>\<open>while (tipsStorage.get(tipId) !== None) tipId = uuidv4()\<close> (part_001, lines
  383-386) draws identifiers until one is not a key of the store. \<open>uuids\<close> is the sequence
  of \<^verbatim>\<open>uuidv4()\<close> results; \<open>None\<close> says that the sequence ended with the loop still running.
\<close>

fun freshUuid :: "string list \<Rightarrow> 'v StableBTreeMap \<Rightarrow> string option" where
  "freshUuid [] m = None"
| "freshUuid (u # uuids) m =
     (if btree_get m u \<noteq> None then freshUuid uuids m else Some u)"

text \<open>
  \<^verbatim>\<open>createTip\<close> (part_001, lines 350-417). \<^verbatim>\<open>ic.caller().is_regular_user\<close> is not declared
  in the repository and is the parameter \<open>is_regular_user\<close>; \<^verbatim>\<open>ic.atomic\<close> runs its
  callback.
\<close>

definition createTip_gated ::
  "bool \<Rightarrow> TipPayload \<Rightarrow> string list \<Rightarrow> nat \<Rightarrow> State_nat \<Rightarrow> ((Error + Tip) \<times> State_nat) option"
  where
  "createTip_gated is_regular_user payload uuids now s =
     (if \<not> is_regular_user then Some (Inl Unauthorized, s)
      else if tp_dj_name payload = [] \<or> tp_amount payload \<le> 0 \<or> tp_user_id payload = []
      then Some (Inl InvalidPayload, s)
      else
        (case btree_get (usersStorage_nat s) (tp_user_id payload) of
           None \<Rightarrow> Some (Inl NotFound, s)
         | Some user \<Rightarrow>
             if u_role user = DJ then Some (Inl InvalidPayload, s)
             else
               (case findDJ_nat (tp_dj_name payload) (usersStorage_nat s) of
                  None \<Rightarrow> Some (Inl NotFound, s)
                | Some djOpt \<Rightarrow>
                    (case freshUuid uuids (tipsStorage_nat s) of
                       None \<Rightarrow> None
                     | Some tipId \<Rightarrow>
                         let tip = \<lparr>tip_id = tipId, tip_user_id = tp_user_id payload,
                                    tip_dj_name = tp_dj_name payload,
                                    tip_amount = tp_amount payload,
                                    tip_status = Pending, tip_created_at = now\<rparr>
                         in Some (Inr tip,
                                  s\<lparr>tipsStorage_nat := btree_insert tipId tip (tipsStorage_nat s),
                                    leaderboardStorage_nat :=
                                      tipLeaderboard_nat (tp_dj_name payload) (tp_amount payload)
                                        (leaderboardStorage_nat s)\<rparr>)))))"

subsection \<open>Sequences of calls\<close>

text \<open>
  The canister runs one call to completion before the next. A sequence of update calls
  is the fold of their state changes; the results are kept in call order.
\<close>

datatype Call = TipCall Tip string nat | RatingCall Rating string nat

fun step :: "Call \<Rightarrow> State \<Rightarrow> State" where
  "step (TipCall payload tipId now) s = snd (createTip payload tipId now s)"
| "step (RatingCall payload ratingId now) s = snd (createRating payload ratingId now s)"

fun run :: "Call list \<Rightarrow> State \<Rightarrow> State" where
  "run [] s = s"
| "run (c # cs) s = run cs (step c s)"


fun createRatings ::
  "(Rating \<times> string \<times> nat) list \<Rightarrow> State \<Rightarrow> (Error + Rating) list \<times> State" where
  "createRatings [] s = ([], s)"
| "createRatings ((payload, ratingId, now) # cs) s =
     (let (r, s1) = createRating payload ratingId now s;
          (rs, s2) = createRatings cs s1
      in (r # rs, s2))"

datatype Call_nat = TipCall_nat TipPayload string nat | RatingCall_nat RatingPayload string nat

fun step_nat :: "Call_nat \<Rightarrow> State_nat \<Rightarrow> State_nat" where
  "step_nat (TipCall_nat payload tipId now) s = snd (createTip_nat payload tipId now s)"
| "step_nat (RatingCall_nat payload ratingId now) s = snd (createRating_nat payload ratingId now s)"

fun run_nat :: "Call_nat list \<Rightarrow> State_nat \<Rightarrow> State_nat" where
  "run_nat [] s = s"
| "run_nat (c # cs) s = run_nat cs (step_nat c s)"

fun createTips_nat ::
  "(TipPayload \<times> string \<times> nat) list \<Rightarrow> State_nat \<Rightarrow> (Error + Tip) list \<times> State_nat" where
  "createTips_nat [] s = ([], s)"
| "createTips_nat ((payload, tipId, now) # cs) s =
     (let (r, s1) = createTip_nat payload tipId now s;
          (rs, s2) = createTips_nat cs s1
      in (r # rs, s2))"

text \<open>A store with the given users and nothing else.\<close>

definition initial :: "User StableBTreeMap \<Rightarrow> State" where
  "initial users =
     \<lparr>usersStorage = users, tipsStorage = [], ratingsStorage = [], leaderboardStorage = []\<rparr>"

definition initial_nat :: "User StableBTreeMap \<Rightarrow> State_nat" where
  "initial_nat users =
     \<lparr>usersStorage_nat = users, tipsStorage_nat = [], ratingsStorage_nat = [],
      leaderboardStorage_nat = []\<rparr>"

subsection \<open>Observations on the leaderboard\<close>


definition ratingCountOf :: "LeaderboardEntry StableBTreeMap \<Rightarrow> string \<Rightarrow> nat" where
  "ratingCountOf lb k = (case btree_get lb k of Some e \<Rightarrow> total_ratings e | None \<Rightarrow> 0)"

definition ratingPointsOf :: "LeaderboardEntry StableBTreeMap \<Rightarrow> string \<Rightarrow> nat" where
  "ratingPointsOf lb k = (case btree_get lb k of Some e \<Rightarrow> total_rating_points e | None \<Rightarrow> 0)"

definition avgRatingOf :: "LeaderboardEntry StableBTreeMap \<Rightarrow> string \<Rightarrow> rat" where
  "avgRatingOf lb k = (case btree_get lb k of Some e \<Rightarrow> avg_rating e | None \<Rightarrow> 0)"

definition totalTipsOf_nat :: "LeaderboardEntry_nat StableBTreeMap \<Rightarrow> string \<Rightarrow> nat" where
  "totalTipsOf_nat lb k = (case btree_get lb k of Some e \<Rightarrow> total_tips_nat e | None \<Rightarrow> 0)"

text \<open>The relation between the average and the two counters of an entry.\<close>

definition entry_ok :: "LeaderboardEntry \<Rightarrow> bool" where
  "entry_ok e \<longleftrightarrow>
     (if total_ratings e > 0
      then avg_rating e = rat_of_nat (total_rating_points e) / rat_of_nat (total_ratings e)
      else avg_rating e = 0 \<and> total_rating_points e = 0)"



text \<open>
  A leaderboard store as the handlers build it: keys in the store's order, every entry
  stored under its own \<^verbatim>\<open>dj_name\<close>.
\<close>

definition keyed_by_name :: "LeaderboardEntry_nat StableBTreeMap \<Rightarrow> bool" where
  "keyed_by_name lb \<longleftrightarrow>
     sorted_wrt key_less (map fst lb) \<and> list_all (\<lambda>p. dj_name_nat (snd p) = fst p) lb"

subsection \<open>The scenario of DJ Nova\<close>

text \<open>
  A listener and the DJ "Nova" are registered. Nova receives tips of 10, 5 and 20, then
  ratings of 5, 3 and 4, all from the listener.
\<close>

definition fan_profile :: User where
  "fan_profile = \<lparr>u_id = ''u1'', u_name = ''Fan'', u_contact = ''fan@example.org'',
     u_created_at = 1, u_status = Active, u_role = RegularUser, u_points = 0\<rparr>"

definition nova_profile :: User where
  "nova_profile = \<lparr>u_id = ''u2'', u_name = ''Nova'', u_contact = ''nova@example.org'',
     u_created_at = 2, u_status = Active, u_role = DJ, u_points = 0\<rparr>"

definition scenario_users :: "User StableBTreeMap" where
  "scenario_users = [(''u1'', fan_profile), (''u2'', nova_profile)]"

definition novaTip :: "nat \<Rightarrow> Tip" where
  "novaTip amount = \<lparr>tip_id = [], tip_user_id = ''u1'', tip_dj_name = ''Nova'',
     tip_amount = amount, tip_status = Pending, tip_created_at = 0\<rparr>"

definition novaRating :: "nat \<Rightarrow> Rating" where
  "novaRating rating = \<lparr>rating_id = [], rating_user_id = ''u1'', rating_dj_name = ''Nova'',
     rating_value = rating, rating_review = [], rating_created_at = 0\<rparr>"

definition nova_tip_calls :: "(Tip \<times> string \<times> nat) list" where
  "nova_tip_calls = [(novaTip 10, ''t1'', 10), (novaTip 5, ''t2'', 11), (novaTip 20, ''t3'', 12)]"

definition nova_rating_calls :: "(Rating \<times> string \<times> nat) list" where
  "nova_rating_calls =
     [(novaRating 5, ''r1'', 13), (novaRating 3, ''r2'', 14), (novaRating 4, ''r3'', 15)]"

definition nova_tips :: "Call list" where
  "nova_tips = [TipCall (novaTip 10) ''t1'' 10, TipCall (novaTip 5) ''t2'' 11,
                TipCall (novaTip 20) ''t3'' 12]"

definition nova_ratings :: "Call list" where
  "nova_ratings = [RatingCall (novaRating 5) ''r1'' 13, RatingCall (novaRating 3) ''r2'' 14,
                   RatingCall (novaRating 4) ''r3'' 15]"

definition tipped_state :: State where
  "tipped_state = run nova_tips (initial scenario_users)"

definition nova_state :: State where
  "nova_state = run (nova_tips @ nova_ratings) (initial scenario_users)"

text \<open>The same calls with the nat64 revision's payloads.\<close>

definition novaTip_nat :: "nat \<Rightarrow> TipPayload" where
  "novaTip_nat amount = \<lparr>tp_dj_name = ''Nova'', tp_amount = amount, tp_user_id = ''u1''\<rparr>"

definition novaRating_nat :: "nat \<Rightarrow> RatingPayload" where
  "novaRating_nat rating =
     \<lparr>rp_dj_name = ''Nova'', rp_rating = rating, rp_review = [], rp_user_id = ''u1''\<rparr>"

definition nova_calls_nat :: "Call_nat list" where
  "nova_calls_nat =
     [TipCall_nat (novaTip_nat 10) ''t1'' 10, TipCall_nat (novaTip_nat 5) ''t2'' 11,
      TipCall_nat (novaTip_nat 20) ''t3'' 12,
      RatingCall_nat (novaRating_nat 5) ''r1'' 13, RatingCall_nat (novaRating_nat 3) ''r2'' 14,
      RatingCall_nat (novaRating_nat 4) ''r3'' 15]"

definition tipped_state_nat :: State_nat where
  "tipped_state_nat = run_nat (take 3 nova_calls_nat) (initial_nat scenario_users)"

definition nova_state_nat :: State_nat where
  "nova_state_nat = run_nat nova_calls_nat (initial_nat scenario_users)"

text \<open>Nova, on a fresh nat64 leaderboard, is rated 5 once, and 5 twice.\<close>

definition rated_once_nat :: State_nat where
  "rated_once_nat =
     run_nat [RatingCall_nat (novaRating_nat 5) ''r1'' 13] (initial_nat scenario_users)"

definition rated_twice_nat :: State_nat where
  "rated_twice_nat =
     run_nat [RatingCall_nat (novaRating_nat 5) ''r1'' 13,
              RatingCall_nat (novaRating_nat 5) ''r2'' 14] (initial_nat scenario_users)"

text \<open>A tip sent by the DJ: the payload's \<^verbatim>\<open>user_id\<close> is Nova's own.\<close>

definition djTip :: Tip where
  "djTip = (novaTip 10)\<lparr>tip_user_id := ''u2''\<rparr>"

definition djTip_nat :: TipPayload where
  "djTip_nat = (novaTip_nat 10)\<lparr>tp_user_id := ''u2''\<rparr>"







section \<open>Properties\<close>

subsection \<open>The order of the keys\<close>

lemma leb128_append_inj:
  "leb128 m @ xs = leb128 n @ ys \<Longrightarrow> m = n \<and> xs = ys"
proof (induction m arbitrary: n rule: leb128.induct)
  case (1 m)
  show ?case
  proof (cases "m < 128")
    case True
    then have hm: "leb128 m = [m]" by (simp add: leb128.simps)
    show ?thesis
    proof (cases "n < 128")
      case n: True
      then have "leb128 n = [n]" by (simp add: leb128.simps)
      with hm "1.prems" show ?thesis by simp
    next
      case n: False
      then have "leb128 n = (n mod 128 + 128) # leb128 (n div 128)"
        by (subst leb128.simps) simp
      with hm "1.prems" True show ?thesis by simp
    qed
  next
    case False
    then have hm: "leb128 m = (m mod 128 + 128) # leb128 (m div 128)"
      by (subst leb128.simps) simp
    show ?thesis
    proof (cases "n < 128")
      case n: True
      then have "leb128 n = [n]" by (simp add: leb128.simps)
      with hm "1.prems" n show ?thesis by simp
    next
      case n: False
      then have hn: "leb128 n = (n mod 128 + 128) # leb128 (n div 128)"
        by (subst leb128.simps) simp
      from hm hn "1.prems" have md: "m mod 128 = n mod 128"
        and rest: "leb128 (m div 128) @ xs = leb128 (n div 128) @ ys"
        by simp_all
      from "1.IH" [OF False rest] have dv: "m div 128 = n div 128" and xy: "xs = ys"
        by simp_all
      from md dv have "m = n" by (metis div_mult_mod_eq)
      with xy show ?thesis by simp
    qed
  qed
qed

lemma map_of_char_inj: "map of_char a = (map of_char b :: nat list) \<Longrightarrow> a = b"
  by (induction a arbitrary: b) (auto simp: map_eq_Cons_conv)

lemma key_bytes_inj: "key_bytes a = key_bytes b \<Longrightarrow> a = b"
  unfolding key_bytes_def using leb128_append_inj map_of_char_inj by blast

lemma key_less_trans: "key_less a b \<Longrightarrow> key_less b c \<Longrightarrow> key_less a c"
  unfolding key_less_def by (rule less_trans)


lemma key_less_total: "\<not> key_less a b \<Longrightarrow> a \<noteq> b \<Longrightarrow> key_less b a"
  unfolding key_less_def using key_bytes_inj [of a b] by (meson linorder_neqE)

lemma map_of_char_less: "(map of_char a :: nat list) < map of_char b \<longleftrightarrow> a < b"
proof (induction a arbitrary: b)
  case Nil
  then show ?case by (cases b) simp_all
next
  case (Cons x a)
  then show ?case by (cases b) (auto simp: less_char_def)
qed

lemma key_less_short:
  assumes "length a < 128" and "length b < 128"
  shows "key_less a b \<longleftrightarrow> length a < length b \<or> (length a = length b \<and> a < b)"
  using assms
  by (auto simp: key_less_def key_bytes_def leb128.simps [of "length a"] leb128.simps [of "length b"]
      map_of_char_less)

subsection \<open>The store\<close>

lemma btree_get_insert:
  "btree_get (btree_insert k v m) k' = (if k' = k then Some v else btree_get m k')"
  by (induction m) (auto simp: btree_get_def)

lemma btree_get_values: "btree_get m k = Some v \<Longrightarrow> v \<in> set (btree_values m)"
  unfolding btree_get_def btree_values_def
  by (metis image_eqI list.set_map map_of_SomeD snd_conv)

lemma set_btree_insert: "set (btree_insert k v m) \<subseteq> insert (k, v) (set m)"
  by (induction m) (auto split: if_splits)

lemma values_btree_insert:
  "set (btree_values (btree_insert k v m)) \<subseteq> insert v (set (btree_values m))"
  using set_btree_insert [of k v m] unfolding btree_values_def by fastforce

lemma length_btree_insert_fresh:
  "btree_get m k = None \<Longrightarrow> length (btree_insert k v m) = Suc (length m)"
  by (induction m) (auto simp: btree_get_def split: if_splits)

lemma keys_btree_insert: "fst ` set (btree_insert k v m) = insert k (fst ` set m)"
proof (induction m)
  case Nil
  show ?case by simp
next
  case (Cons p m)
  obtain a b where p: "p = (a, b)" by (cases p)
  show ?case using Cons unfolding p by (simp add: insert_commute)
qed

lemma btree_get_mem: "btree_get m k = Some v \<Longrightarrow> (k, v) \<in> set m"
  by (simp add: btree_get_def map_of_SomeD)

lemma sorted_btree_insert:
  "sorted_wrt key_less (map fst m) \<Longrightarrow> sorted_wrt key_less (map fst (btree_insert k v m))"
proof (induction m)
  case Nil
  then show ?case by simp
next
  case (Cons p m)
  obtain a b where p: "p = (a, b)" by (cases p)
  from Cons.prems have sm: "sorted_wrt key_less (map fst m)"
    and am: "\<forall>x\<in>fst ` set m. key_less a x"
    unfolding p by simp_all
  show ?case
  proof (cases "key_less k a")
    case True
    then have "\<forall>x\<in>fst ` set m. key_less k x"
      using am key_less_trans by blast
    then show ?thesis using True sm am unfolding p by simp
  next
    case False
    show ?thesis
    proof (cases "k = a")
      case True
      then show ?thesis using False Cons.prems unfolding p by simp
    next
      case ne: False
      with False have "key_less a k" by (simp add: key_less_total)
      then have "\<forall>x\<in>fst ` set (btree_insert k v m). key_less a x"
        using am unfolding keys_btree_insert by simp
      then show ?thesis
        using False ne Cons.IH [OF sm] unfolding p by simp
    qed
  qed
qed

subsection \<open>The outcomes of the handlers\<close>

lemma createTip_cases:
  "createTip payload tipId now s = (Inl InvalidPayload, s) \<or>
   createTip payload tipId now s = (Inl NotFound, s) \<or>
   (\<exists>tip. createTip payload tipId now s =
      (Inr tip, s\<lparr>tipsStorage := btree_insert tipId tip (tipsStorage s),
                  leaderboardStorage := tipLeaderboard (trim (tip_dj_name payload)) (tip_amount payload) (leaderboardStorage s)\<rparr>))"
  unfolding createTip_def Let_def by (simp split: option.splits)

lemma createRating_cases:
  "createRating payload ratingId now s = (Inl InvalidPayload, s) \<or>
   createRating payload ratingId now s = (Inl NotFound, s) \<or>
   (\<exists>r. createRating payload ratingId now s =
      (Inr r, s\<lparr>ratingsStorage := btree_insert ratingId r (ratingsStorage s),
                  leaderboardStorage := rateLeaderboard (trim (rating_dj_name payload)) (rating_value payload) (leaderboardStorage s)\<rparr>))"
  unfolding createRating_def Let_def by (simp split: option.splits)

lemma createTip_Inr:
  assumes "fst (createTip payload tipId now s) = Inr tip"
  shows "snd (createTip payload tipId now s) =
           s\<lparr>tipsStorage := btree_insert tipId tip (tipsStorage s),
             leaderboardStorage :=
               tipLeaderboard (trim (tip_dj_name payload)) (tip_amount payload)
                 (leaderboardStorage s)\<rparr>"
  using assms createTip_cases [of payload tipId now s] by auto

lemma createRating_Inr:
  assumes "fst (createRating payload ratingId now s) = Inr r"
  shows "snd (createRating payload ratingId now s) =
           s\<lparr>ratingsStorage := btree_insert ratingId r (ratingsStorage s),
             leaderboardStorage :=
               rateLeaderboard (trim (rating_dj_name payload)) (rating_value payload)
                 (leaderboardStorage s)\<rparr>"
  using assms createRating_cases [of payload ratingId now s] by auto


lemma createRating_Inl:
  assumes "fst (createRating payload ratingId now s) = Inl e"
  shows "snd (createRating payload ratingId now s) = s"
  using assms createRating_cases [of payload ratingId now s] by auto

lemma createTip_nat_cases:
  "createTip_nat payload tipId now s = (Inl InvalidPayload, s) \<or>
   createTip_nat payload tipId now s = (Inl NotFound, s) \<or>
   (\<exists>tip. createTip_nat payload tipId now s =
      (Inr tip, s\<lparr>tipsStorage_nat := btree_insert tipId tip (tipsStorage_nat s),
                  leaderboardStorage_nat :=
                    tipLeaderboard_nat (tp_dj_name payload) (tp_amount payload)
                      (leaderboardStorage_nat s)\<rparr>))"
  unfolding createTip_nat_def Let_def by (simp split: option.splits)

lemma createRating_nat_cases:
  "createRating_nat payload ratingId now s = (Inl InvalidPayload, s) \<or>
   createRating_nat payload ratingId now s = (Inl NotFound, s) \<or>
   (\<exists>r. createRating_nat payload ratingId now s =
      (Inr r, s\<lparr>ratingsStorage_nat := btree_insert ratingId r (ratingsStorage_nat s),
                leaderboardStorage_nat :=
                  rateLeaderboard_nat (rp_dj_name payload) (rp_rating payload)
                    (leaderboardStorage_nat s)\<rparr>))"
  unfolding createRating_nat_def Let_def by (simp split: option.splits)

lemma createTip_nat_Inr:
  assumes "fst (createTip_nat payload tipId now s) = Inr tip"
  shows "snd (createTip_nat payload tipId now s) =
           s\<lparr>tipsStorage_nat := btree_insert tipId tip (tipsStorage_nat s),
             leaderboardStorage_nat :=
               tipLeaderboard_nat (tp_dj_name payload) (tp_amount payload)
                 (leaderboardStorage_nat s)\<rparr>"
  using assms createTip_nat_cases [of payload tipId now s] by auto

lemma createTip_nat_Inl:
  assumes "fst (createTip_nat payload tipId now s) = Inl e"
  shows "snd (createTip_nat payload tipId now s) = s"
  using assms createTip_nat_cases [of payload tipId now s] by auto

lemma createRating_nat_Inr:
  assumes "fst (createRating_nat payload ratingId now s) = Inr r"
  shows "snd (createRating_nat payload ratingId now s) =
           s\<lparr>ratingsStorage_nat := btree_insert ratingId r (ratingsStorage_nat s),
             leaderboardStorage_nat :=
               rateLeaderboard_nat (rp_dj_name payload) (rp_rating payload)
                 (leaderboardStorage_nat s)\<rparr>"
  using assms createRating_nat_cases [of payload ratingId now s] by auto

subsection \<open>Evaluating the scenario\<close>

lemmas scenario_defs =
  fan_profile_def nova_profile_def scenario_users_def novaTip_def novaRating_def nova_tips_def
  nova_ratings_def nova_tip_calls_def nova_rating_calls_def tipped_state_def nova_state_def
  novaTip_nat_def novaRating_nat_def nova_calls_nat_def
  tipped_state_nat_def nova_state_nat_def rated_once_nat_def rated_twice_nat_def
  djTip_def djTip_nat_def initial_def initial_nat_def

lemmas eval_defs =
  createTip_def createRating_def findDJ_def btree_get_def btree_values_def tipLeaderboard_def
  rateLeaderboard_def trim_def isSpace_def toLowerCase_def toLowerChar_def Let_def
  createTip_nat_def createRating_nat_def findDJ_nat_def tipLeaderboard_nat_def
  rateLeaderboard_nat_def key_less_short

lemma tipped_state_eq:
  "tipped_state =
     \<lparr>usersStorage = scenario_users,
      tipsStorage =
        [(''t1'', novaTip 10\<lparr>tip_id := ''t1'', tip_created_at := 10\<rparr>),
         (''t2'', novaTip 5\<lparr>tip_id := ''t2'', tip_created_at := 11\<rparr>),
         (''t3'', novaTip 20\<lparr>tip_id := ''t3'', tip_created_at := 12\<rparr>)],
      ratingsStorage = [],
      leaderboardStorage =
        [(''Nova'', \<lparr>dj_name = ''Nova'', total_tips = 35, total_ratings = 0,
                     total_rating_points = 0, avg_rating = 0\<rparr>)]\<rparr>"
  by (simp add: scenario_defs eval_defs)

lemma nova_state_eq:
  "nova_state =
     \<lparr>usersStorage = scenario_users,
      tipsStorage =
        [(''t1'', novaTip 10\<lparr>tip_id := ''t1'', tip_created_at := 10\<rparr>),
         (''t2'', novaTip 5\<lparr>tip_id := ''t2'', tip_created_at := 11\<rparr>),
         (''t3'', novaTip 20\<lparr>tip_id := ''t3'', tip_created_at := 12\<rparr>)],
      ratingsStorage =
        [(''r1'', novaRating 5\<lparr>rating_id := ''r1'', rating_created_at := 13\<rparr>),
         (''r2'', novaRating 3\<lparr>rating_id := ''r2'', rating_created_at := 14\<rparr>),
         (''r3'', novaRating 4\<lparr>rating_id := ''r3'', rating_created_at := 15\<rparr>)],
      leaderboardStorage =
        [(''Nova'', \<lparr>dj_name = ''Nova'', total_tips = 35, total_ratings = 3,
                     total_rating_points = 12, avg_rating = 4\<rparr>)]\<rparr>"
  by (simp add: scenario_defs eval_defs)

lemma tipped_state_nat_lb:
  "leaderboardStorage_nat tipped_state_nat =
     [(''Nova'', \<lparr>dj_name_nat = ''Nova'', total_tips_nat = 35, total_ratings_nat = 0,
                  avg_rating_nat = 0\<rparr>)]"
  by (simp add: scenario_defs eval_defs)

lemma nova_state_nat_lb:
  "leaderboardStorage_nat nova_state_nat =
     [(''Nova'', \<lparr>dj_name_nat = ''Nova'', total_tips_nat = 35, total_ratings_nat = 3,
                  avg_rating_nat = 0\<rparr>)]"
  by (simp add: scenario_defs eval_defs)

lemma rated_once_nat_eq:
  "rated_once_nat =
     \<lparr>usersStorage_nat = scenario_users, tipsStorage_nat = [],
      ratingsStorage_nat =
        [(''r1'', novaRating 5\<lparr>rating_id := ''r1'', rating_created_at := 13\<rparr>)],
      leaderboardStorage_nat =
        [(''Nova'', \<lparr>dj_name_nat = ''Nova'', total_tips_nat = 0, total_ratings_nat = 1,
                     avg_rating_nat = 5\<rparr>)]\<rparr>"
  by (simp add: scenario_defs eval_defs)

lemma rated_twice_nat_lb:
  "leaderboardStorage_nat rated_twice_nat =
     [(''Nova'', \<lparr>dj_name_nat = ''Nova'', total_tips_nat = 0, total_ratings_nat = 2,
                  avg_rating_nat = 2\<rparr>)]"
proof -
  have "(5::nat) div Suc (Suc 0) = 2" by (simp flip: numeral_2_eq_2)
  then show ?thesis by (simp add: scenario_defs eval_defs)
qed

subsection \<open>The average and its counters\<close>

lemma insert_ok:
  assumes "\<forall>e \<in> set (btree_values lb). P e" and "P v"
  shows "\<forall>e \<in> set (btree_values (btree_insert k v lb)). P e"
  using assms values_btree_insert [of k v lb] by blast

lemma tipLeaderboard_ok:
  assumes "\<forall>e \<in> set (btree_values lb). entry_ok e"
  shows "\<forall>e \<in> set (btree_values (tipLeaderboard key amount lb)). entry_ok e"
proof (cases "btree_get lb key")
  case None
  have "entry_ok \<lparr>dj_name = key, total_tips = amount, total_ratings = 0,
             total_rating_points = 0, avg_rating = 0\<rparr>"
    by (simp add: entry_ok_def)
  then show ?thesis
    using None insert_ok [OF assms] by (simp add: tipLeaderboard_def)
next
  case (Some e)
  then have "entry_ok e" using assms btree_get_values [OF Some] by simp
  then have "entry_ok (e\<lparr>total_tips := total_tips e + amount\<rparr>)"
    by (simp add: entry_ok_def)
  then show ?thesis
    using Some insert_ok [OF assms] by (simp add: tipLeaderboard_def)
qed

lemma rateLeaderboard_ok:
  assumes "\<forall>e \<in> set (btree_values lb). entry_ok e"
  shows "\<forall>e \<in> set (btree_values (rateLeaderboard key rating lb)). entry_ok e"
proof (cases "btree_get lb key")
  case None
  have "entry_ok \<lparr>dj_name = key, total_tips = 0, total_ratings = 1,
             total_rating_points = rating, avg_rating = rat_of_nat rating\<rparr>"
    by (simp add: entry_ok_def)
  then show ?thesis
    using None insert_ok [OF assms] by (simp add: rateLeaderboard_def)
next
  case (Some e)
  have "entry_ok (e\<lparr>total_ratings := total_ratings e + 1,
                    total_rating_points := total_rating_points e + rating,
                    avg_rating := rat_of_nat (total_rating_points e + rating) / rat_of_nat (total_ratings e + 1)\<rparr>)"
    by (simp add: entry_ok_def)
  then show ?thesis
    using Some insert_ok [OF assms] by (simp add: rateLeaderboard_def Let_def)
qed

lemma step_ok:
  assumes "\<forall>e \<in> set (btree_values (leaderboardStorage s)). entry_ok e"
  shows "\<forall>e \<in> set (btree_values (leaderboardStorage (step c s))). entry_ok e"
proof (cases c)
  case (TipCall p i t)
  have "leaderboardStorage (step c s) = leaderboardStorage s \<or>
        leaderboardStorage (step c s) = tipLeaderboard (trim (tip_dj_name p)) (tip_amount p) (leaderboardStorage s)"
    using createTip_cases [of p i t s] unfolding TipCall by auto
  then show ?thesis
    using assms tipLeaderboard_ok [OF assms] by metis
next
  case (RatingCall p i t)
  have "leaderboardStorage (step c s) = leaderboardStorage s \<or>
        leaderboardStorage (step c s) = rateLeaderboard (trim (rating_dj_name p)) (rating_value p) (leaderboardStorage s)"
    using createRating_cases [of p i t s] unfolding RatingCall by auto
  then show ?thesis
    using assms rateLeaderboard_ok [OF assms] by metis
qed

lemma run_ok:
  "\<forall>e \<in> set (btree_values (leaderboardStorage s)). entry_ok e \<Longrightarrow>
   \<forall>e \<in> set (btree_values (leaderboardStorage (run cs s))). entry_ok e"
proof (induction cs arbitrary: s)
  case Nil
  then show ?case by simp
next
  case (Cons c cs)
  show ?case using Cons.IH [OF step_ok [OF Cons.prems]] by simp
qed

text \<open>
  Claim C2. After any sequence of \<^verbatim>\<open>createTip\<close> and \<^verbatim>\<open>createRating\<close> calls (float64
  revision) on a store whose tips, ratings and leaderboard are empty, with any users,
  every leaderboard entry with \<open>total_ratings > 0\<close> has
  \<open>avg_rating = total_rating_points / total_ratings\<close>, and every entry with
  \<open>total_ratings = 0\<close> has \<open>avg_rating = 0\<close> and \<open>total_rating_points = 0\<close>.
\<close>

theorem avg_rating_invariant:
  "\<forall>e \<in> set (btree_values (leaderboardStorage (run calls (initial users)))).
     (total_ratings e > 0 \<longrightarrow>
        avg_rating e = rat_of_nat (total_rating_points e) / rat_of_nat (total_ratings e)) \<and>
     (total_ratings e = 0 \<longrightarrow> avg_rating e = 0 \<and> total_rating_points e = 0)"
proof -
  have "\<forall>e \<in> set (btree_values (leaderboardStorage (initial users))). entry_ok e"
    by (simp add: initial_def btree_values_def)
  from run_ok [OF this, of calls] show ?thesis
    unfolding entry_ok_def by (metis less_numeral_extra(3))
qed

theorem avg_rating_invariant_witness:
  "(\<exists>e \<in> set (btree_values (leaderboardStorage
        (run (nova_tips @ nova_ratings) (initial scenario_users)))).
      total_ratings e > 0 \<and> avg_rating e = 4 \<and>
      avg_rating e = rat_of_nat (total_rating_points e) / rat_of_nat (total_ratings e)) \<and>
   (\<exists>e \<in> set (btree_values (leaderboardStorage (run nova_tips (initial scenario_users)))).
      total_ratings e = 0 \<and> avg_rating e = 0 \<and> total_rating_points e = 0)"
proof -
  have a: "run (nova_tips @ nova_ratings) (initial scenario_users) = nova_state"
    by (simp add: nova_state_def)
  have b: "run nova_tips (initial scenario_users) = tipped_state"
    by (simp add: tipped_state_def)
  show ?thesis
    using avg_rating_invariant [of "nova_tips @ nova_ratings" scenario_users]
      avg_rating_invariant [of nova_tips scenario_users]
    unfolding a b nova_state_eq tipped_state_eq
    by (simp add: btree_values_def)
qed

subsection \<open>Creation on first use\<close>

text \<open>
  Claim C5. A successful \<^verbatim>\<open>createTip\<close> for a DJ without a leaderboard entry adds exactly
  one entry, with \<open>total_tips\<close> the amount and the rating fields zero; a successful
  \<^verbatim>\<open>createRating\<close> for a DJ without an entry adds exactly one entry, with
  \<open>total_tips = 0\<close>, \<open>total_ratings = 1\<close>, and the rating as \<open>total_rating_points\<close> and
  as \<open>avg_rating\<close>. The other keys keep their entries and the store grows by one.
\<close>

theorem creation_on_first_use:
  "(fst (createTip tipPayload tipId now s) = Inr tip \<and>
    btree_get (leaderboardStorage s) (trim (tip_dj_name tipPayload)) = None \<longrightarrow>
      (let key = trim (tip_dj_name tipPayload);
           lb = leaderboardStorage (snd (createTip tipPayload tipId now s))
       in btree_get lb key =
            Some \<lparr>dj_name = key, total_tips = tip_amount tipPayload, total_ratings = 0,
                  total_rating_points = 0, avg_rating = 0\<rparr> \<and>
          (\<forall>k. k \<noteq> key \<longrightarrow> btree_get lb k = btree_get (leaderboardStorage s) k) \<and>
          length (btree_values lb) = Suc (length (btree_values (leaderboardStorage s))))) \<and>
   (fst (createRating ratingPayload ratingId now' s') = Inr rating \<and>
    btree_get (leaderboardStorage s') (trim (rating_dj_name ratingPayload)) = None \<longrightarrow>
      (let key = trim (rating_dj_name ratingPayload);
           lb = leaderboardStorage (snd (createRating ratingPayload ratingId now' s'))
       in btree_get lb key =
            Some \<lparr>dj_name = key, total_tips = 0, total_ratings = 1,
                  total_rating_points = rating_value ratingPayload,
                  avg_rating = rat_of_nat (rating_value ratingPayload)\<rparr> \<and>
          (\<forall>k. k \<noteq> key \<longrightarrow> btree_get lb k = btree_get (leaderboardStorage s') k) \<and>
          length (btree_values lb) = Suc (length (btree_values (leaderboardStorage s')))))"
proof (intro conjI impI)
  assume a: "fst (createTip tipPayload tipId now s) = Inr tip \<and>
    btree_get (leaderboardStorage s) (trim (tip_dj_name tipPayload)) = None"
  then have none: "btree_get (leaderboardStorage s) (trim (tip_dj_name tipPayload)) = None"
    by simp
  from a have st: "leaderboardStorage (snd (createTip tipPayload tipId now s)) =
      tipLeaderboard (trim (tip_dj_name tipPayload)) (tip_amount tipPayload) (leaderboardStorage s)"
    by (simp add: createTip_Inr)
  show "let key = trim (tip_dj_name tipPayload);
           lb = leaderboardStorage (snd (createTip tipPayload tipId now s))
       in btree_get lb key =
            Some \<lparr>dj_name = key, total_tips = tip_amount tipPayload, total_ratings = 0,
                  total_rating_points = 0, avg_rating = 0\<rparr> \<and>
          (\<forall>k. k \<noteq> key \<longrightarrow> btree_get lb k = btree_get (leaderboardStorage s) k) \<and>
          length (btree_values lb) = Suc (length (btree_values (leaderboardStorage s)))"
    unfolding Let_def st
    using none length_btree_insert_fresh [OF none]
    by (simp add: tipLeaderboard_def btree_get_insert btree_values_def)
next
  assume a: "fst (createRating ratingPayload ratingId now' s') = Inr rating \<and>
    btree_get (leaderboardStorage s') (trim (rating_dj_name ratingPayload)) = None"
  then have none: "btree_get (leaderboardStorage s') (trim (rating_dj_name ratingPayload)) = None"
    by simp
  from a have st: "leaderboardStorage (snd (createRating ratingPayload ratingId now' s')) =
      rateLeaderboard (trim (rating_dj_name ratingPayload)) (rating_value ratingPayload) (leaderboardStorage s')"
    by (simp add: createRating_Inr)
  show "let key = trim (rating_dj_name ratingPayload);
           lb = leaderboardStorage (snd (createRating ratingPayload ratingId now' s'))
       in btree_get lb key =
            Some \<lparr>dj_name = key, total_tips = 0, total_ratings = 1,
                  total_rating_points = rating_value ratingPayload,
                  avg_rating = rat_of_nat (rating_value ratingPayload)\<rparr> \<and>
          (\<forall>k. k \<noteq> key \<longrightarrow> btree_get lb k = btree_get (leaderboardStorage s') k) \<and>
          length (btree_values lb) = Suc (length (btree_values (leaderboardStorage s')))"
    unfolding Let_def st
    using none length_btree_insert_fresh [OF none]
    by (simp add: rateLeaderboard_def btree_get_insert btree_values_def)
qed

theorem creation_on_first_use_witness:
  "fst (createTip (novaTip 10) ''t1'' 10 (initial scenario_users)) =
     Inr (novaTip 10\<lparr>tip_id := ''t1'', tip_created_at := 10\<rparr>) \<and>
   btree_get (leaderboardStorage (initial scenario_users)) (trim (tip_dj_name (novaTip 10))) = None \<and>
   btree_get (leaderboardStorage (snd (createTip (novaTip 10) ''t1'' 10 (initial scenario_users))))
       ''Nova'' =
     Some \<lparr>dj_name = ''Nova'', total_tips = 10, total_ratings = 0, total_rating_points = 0,
           avg_rating = 0\<rparr> \<and>
   length (btree_values (leaderboardStorage
       (snd (createTip (novaTip 10) ''t1'' 10 (initial scenario_users))))) = 1 \<and>
   fst (createRating (novaRating 5) ''r1'' 13 (initial scenario_users)) =
     Inr (novaRating 5\<lparr>rating_id := ''r1'', rating_created_at := 13\<rparr>) \<and>
   btree_get (leaderboardStorage (initial scenario_users)) (trim (rating_dj_name (novaRating 5))) = None \<and>
   btree_get (leaderboardStorage (snd (createRating (novaRating 5) ''r1'' 13 (initial scenario_users))))
       ''Nova'' =
     Some \<lparr>dj_name = ''Nova'', total_tips = 0, total_ratings = 1, total_rating_points = 5,
           avg_rating = 5\<rparr> \<and>
   length (btree_values (leaderboardStorage
       (snd (createRating (novaRating 5) ''r1'' 13 (initial scenario_users))))) = 1"
proof -
  have t: "fst (createTip (novaTip 10) ''t1'' 10 (initial scenario_users)) =
     Inr (novaTip 10\<lparr>tip_id := ''t1'', tip_created_at := 10\<rparr>)"
    by (simp add: scenario_defs eval_defs)
  have tn: "btree_get (leaderboardStorage (initial scenario_users))
      (trim (tip_dj_name (novaTip 10))) = None"
    by (simp add: scenario_defs btree_get_def)
  have r: "fst (createRating (novaRating 5) ''r1'' 13 (initial scenario_users)) =
     Inr (novaRating 5\<lparr>rating_id := ''r1'', rating_created_at := 13\<rparr>)"
    by (simp add: scenario_defs eval_defs)
  have rn: "btree_get (leaderboardStorage (initial scenario_users))
      (trim (rating_dj_name (novaRating 5))) = None"
    by (simp add: scenario_defs btree_get_def)
  have k: "trim ''Nova'' = ''Nova''"
    by (simp add: trim_def isSpace_def)
  from creation_on_first_use
    [of "novaTip 10" "''t1''" 10 "initial scenario_users"
        "novaTip 10\<lparr>tip_id := ''t1'', tip_created_at := 10\<rparr>"
        "novaRating 5" "''r1''" 13 "initial scenario_users"
        "novaRating 5\<lparr>rating_id := ''r1'', rating_created_at := 13\<rparr>"]
  show ?thesis
    using t tn r rn
    by (simp add: Let_def k novaTip_def novaRating_def initial_def btree_values_def)
qed

subsection \<open>Tips accumulate\<close>





lemma totalTipsOf_tipLeaderboard_nat:
  "totalTipsOf_nat (tipLeaderboard_nat key amount lb) k =
     (if k = key then totalTipsOf_nat lb k + amount else totalTipsOf_nat lb k)"
  by (simp add: totalTipsOf_nat_def tipLeaderboard_nat_def btree_get_insert split: option.splits)

lemma totalTipsOf_createTip_nat:
  "totalTipsOf_nat (leaderboardStorage_nat (snd (createTip_nat payload tipId now s))) k =
     totalTipsOf_nat (leaderboardStorage_nat s) k +
       (if \<not> isl (fst (createTip_nat payload tipId now s)) \<and> tp_dj_name payload = k
        then tp_amount payload else 0)"
proof (cases "fst (createTip_nat payload tipId now s)")
  case (Inl e)
  then show ?thesis by (simp add: createTip_nat_Inl)
next
  case (Inr tip)
  then show ?thesis by (simp add: createTip_nat_Inr totalTipsOf_tipLeaderboard_nat)
qed

lemma createTips_nat_Cons:
  "createTips_nat (c # cs) s =
     (fst (createTip_nat (fst c) (fst (snd c)) (snd (snd c)) s) #
        fst (createTips_nat cs (snd (createTip_nat (fst c) (fst (snd c)) (snd (snd c)) s))),
      snd (createTips_nat cs (snd (createTip_nat (fst c) (fst (snd c)) (snd (snd c)) s))))"
  by (cases c) (simp add: split_beta)

lemma totalTipsOf_createTips_nat:
  assumes "\<forall>c \<in> set calls. tp_dj_name (fst c) = k"
    and "\<forall>r \<in> set (fst (createTips_nat calls s)). \<not> isl r"
  shows "totalTipsOf_nat (leaderboardStorage_nat (snd (createTips_nat calls s))) k =
           totalTipsOf_nat (leaderboardStorage_nat s) k +
             sum_list (map (\<lambda>c. tp_amount (fst c)) calls)"
  using assms
proof (induction calls arbitrary: s)
  case Nil
  then show ?case by simp
next
  case (Cons c cs)
  let ?s1 = "snd (createTip_nat (fst c) (fst (snd c)) (snd (snd c)) s)"
  from Cons.prems have ok: "\<not> isl (fst (createTip_nat (fst c) (fst (snd c)) (snd (snd c)) s))"
    and rest: "\<forall>r \<in> set (fst (createTips_nat cs ?s1)). \<not> isl r"
    and key: "tp_dj_name (fst c) = k"
    and keys: "\<forall>c \<in> set cs. tp_dj_name (fst c) = k"
    by (simp_all add: createTips_nat_Cons)
  have "totalTipsOf_nat (leaderboardStorage_nat (snd (createTips_nat cs ?s1))) k =
          totalTipsOf_nat (leaderboardStorage_nat ?s1) k +
            sum_list (map (\<lambda>c. tp_amount (fst c)) cs)"
    by (rule Cons.IH [OF keys rest])
  also have "totalTipsOf_nat (leaderboardStorage_nat ?s1) k =
          totalTipsOf_nat (leaderboardStorage_nat s) k + tp_amount (fst c)"
    using ok key by (simp add: totalTipsOf_createTip_nat)
  finally show ?case by (simp add: createTips_nat_Cons)
qed






subsection \<open>What a rating leaves alone\<close>

text \<open>
  Claim C10. A successful \<^verbatim>\<open>createRating\<close> for a DJ that has a leaderboard entry leaves
  the entry's \<open>total_tips\<close> and \<open>dj_name\<close> as they were: the new entry is the old one with
  \<open>total_ratings\<close>, \<open>total_rating_points\<close> and \<open>avg_rating\<close> replaced (float64 revision), or
  with \<open>total_ratings\<close> and \<open>avg_rating\<close> replaced (nat64 revision, which has no
  \<open>total_rating_points\<close>).
\<close>

theorem createRating_frame:
  "(fst (createRating payload ratingId now s) = Inr r \<and>
    btree_get (leaderboardStorage s) (trim (rating_dj_name payload)) = Some e \<longrightarrow>
      (\<exists>e'. btree_get (leaderboardStorage (snd (createRating payload ratingId now s)))
               (trim (rating_dj_name payload)) = Some e' \<and>
            total_tips e' = total_tips e \<and> dj_name e' = dj_name e \<and>
            e' = e\<lparr>total_ratings := total_ratings e', total_rating_points := total_rating_points e',
                    avg_rating := avg_rating e'\<rparr>)) \<and>
   (fst (createRating_nat payload_nat ratingId now s_nat) = Inr r \<and>
    btree_get (leaderboardStorage_nat s_nat) (rp_dj_name payload_nat) = Some e_nat \<longrightarrow>
      (\<exists>e'. btree_get (leaderboardStorage_nat (snd (createRating_nat payload_nat ratingId now s_nat)))
               (rp_dj_name payload_nat) = Some e' \<and>
            total_tips_nat e' = total_tips_nat e_nat \<and> dj_name_nat e' = dj_name_nat e_nat \<and>
            e' = e_nat\<lparr>total_ratings_nat := total_ratings_nat e',
                        avg_rating_nat := avg_rating_nat e'\<rparr>))"
proof (intro conjI impI)
  assume a: "fst (createRating payload ratingId now s) = Inr r \<and>
    btree_get (leaderboardStorage s) (trim (rating_dj_name payload)) = Some e"
  then have ok: "fst (createRating payload ratingId now s) = Inr r"
    and e: "btree_get (leaderboardStorage s) (trim (rating_dj_name payload)) = Some e"
    by simp_all
  show "\<exists>e'. btree_get (leaderboardStorage (snd (createRating payload ratingId now s)))
               (trim (rating_dj_name payload)) = Some e' \<and>
            total_tips e' = total_tips e \<and> dj_name e' = dj_name e \<and>
            e' = e\<lparr>total_ratings := total_ratings e', total_rating_points := total_rating_points e',
                    avg_rating := avg_rating e'\<rparr>"
    using e unfolding createRating_Inr [OF ok]
    by (simp add: rateLeaderboard_def btree_get_insert Let_def)
next
  assume a: "fst (createRating_nat payload_nat ratingId now s_nat) = Inr r \<and>
    btree_get (leaderboardStorage_nat s_nat) (rp_dj_name payload_nat) = Some e_nat"
  then have ok: "fst (createRating_nat payload_nat ratingId now s_nat) = Inr r"
    and e: "btree_get (leaderboardStorage_nat s_nat) (rp_dj_name payload_nat) = Some e_nat"
    by simp_all
  show "\<exists>e'. btree_get (leaderboardStorage_nat (snd (createRating_nat payload_nat ratingId now s_nat)))
               (rp_dj_name payload_nat) = Some e' \<and>
            total_tips_nat e' = total_tips_nat e_nat \<and> dj_name_nat e' = dj_name_nat e_nat \<and>
            e' = e_nat\<lparr>total_ratings_nat := total_ratings_nat e',
                        avg_rating_nat := avg_rating_nat e'\<rparr>"
    using e unfolding createRating_nat_Inr [OF ok]
    by (simp add: rateLeaderboard_nat_def btree_get_insert Let_def)
qed

theorem createRating_frame_witness:
  "fst (createRating (novaRating 5) ''r1'' 13 tipped_state) =
     Inr (novaRating 5\<lparr>rating_id := ''r1'', rating_created_at := 13\<rparr>) \<and>
   btree_get (leaderboardStorage tipped_state) (trim (rating_dj_name (novaRating 5))) =
     Some \<lparr>dj_name = ''Nova'', total_tips = 35, total_ratings = 0, total_rating_points = 0,
           avg_rating = 0\<rparr> \<and>
   (\<exists>e'. btree_get (leaderboardStorage (snd (createRating (novaRating 5) ''r1'' 13 tipped_state)))
            (trim (rating_dj_name (novaRating 5))) = Some e' \<and>
         total_tips e' = 35 \<and> dj_name e' = ''Nova'') \<and>
   fst (createRating_nat (novaRating_nat 5) ''r1'' 13 tipped_state_nat) =
     Inr (novaRating 5\<lparr>rating_id := ''r1'', rating_created_at := 13\<rparr>) \<and>
   btree_get (leaderboardStorage_nat tipped_state_nat) (rp_dj_name (novaRating_nat 5)) =
     Some \<lparr>dj_name_nat = ''Nova'', total_tips_nat = 35, total_ratings_nat = 0,
           avg_rating_nat = 0\<rparr> \<and>
   (\<exists>e'. btree_get (leaderboardStorage_nat
              (snd (createRating_nat (novaRating_nat 5) ''r1'' 13 tipped_state_nat)))
            (rp_dj_name (novaRating_nat 5)) = Some e' \<and>
         total_tips_nat e' = 35 \<and> dj_name_nat e' = ''Nova'')"
proof -
  have a: "fst (createRating (novaRating 5) ''r1'' 13 tipped_state) =
     Inr (novaRating 5\<lparr>rating_id := ''r1'', rating_created_at := 13\<rparr>)"
    unfolding tipped_state_eq by (simp add: scenario_defs eval_defs)
  have b: "btree_get (leaderboardStorage tipped_state) (trim (rating_dj_name (novaRating 5))) =
     Some \<lparr>dj_name = ''Nova'', total_tips = 35, total_ratings = 0, total_rating_points = 0,
           avg_rating = 0\<rparr>"
    unfolding tipped_state_eq by (simp add: novaRating_def btree_get_def trim_def isSpace_def)
  have users: "usersStorage_nat tipped_state_nat = scenario_users"
    by (simp add: scenario_defs eval_defs)
  have a': "fst (createRating_nat (novaRating_nat 5) ''r1'' 13 tipped_state_nat) =
     Inr (novaRating 5\<lparr>rating_id := ''r1'', rating_created_at := 13\<rparr>)"
    by (simp add: createRating_nat_def users Let_def btree_get_def scenario_users_def
        novaRating_nat_def novaRating_def)
  have b': "btree_get (leaderboardStorage_nat tipped_state_nat) (rp_dj_name (novaRating_nat 5)) =
     Some \<lparr>dj_name_nat = ''Nova'', total_tips_nat = 35, total_ratings_nat = 0,
           avg_rating_nat = 0\<rparr>"
    unfolding tipped_state_nat_lb by (simp add: novaRating_nat_def btree_get_def)
  from createRating_frame
    [of "novaRating 5" "''r1''" 13 tipped_state
        "novaRating 5\<lparr>rating_id := ''r1'', rating_created_at := 13\<rparr>"
        "\<lparr>dj_name = ''Nova'', total_tips = 35, total_ratings = 0, total_rating_points = 0,
          avg_rating = 0\<rparr>"
        "novaRating_nat 5" tipped_state_nat
        "\<lparr>dj_name_nat = ''Nova'', total_tips_nat = 35, total_ratings_nat = 0,
          avg_rating_nat = 0\<rparr>"]
  show ?thesis
    using a b a' b' by auto
qed

subsection \<open>A DJ cannot tip\<close>

text \<open>
  Claim C9 as stated fails on the gated revision, which checks the caller before
  anything else: when the caller is not a regular user, a call with a DJ's \<^verbatim>\<open>user_id\<close>
  ends with \<open>Unauthorized\<close>, not with \<open>InvalidPayload\<close>.
\<close>

theorem createTip_gated_unauthorized:
  "btree_get (usersStorage_nat (initial_nat scenario_users)) (tp_user_id djTip_nat) =
     Some nova_profile \<and>
   u_role nova_profile = DJ \<and>
   createTip_gated False djTip_nat [''t1''] 10 (initial_nat scenario_users) =
     Some (Inl Unauthorized, initial_nat scenario_users) \<and>
   createTip_gated False djTip_nat [''t1''] 10 (initial_nat scenario_users) \<noteq>
     Some (Inl InvalidPayload, initial_nat scenario_users)"
  by (simp add: createTip_gated_def scenario_defs btree_get_def)

text \<open>
  Claim C9, amended. A \<^verbatim>\<open>createTip\<close> call whose \<^verbatim>\<open>user_id\<close> is the key of a stored user
  with role DJ returns an error and leaves the whole state, so the tips store and the
  leaderboard store, as it was. The error is \<open>InvalidPayload\<close> in the float64 and nat64
  revisions; in the gated revision it is \<open>InvalidPayload\<close> when the caller is a regular
  user and \<open>Unauthorized\<close> when not.
\<close>

theorem createTip_by_DJ:
  "(btree_get (usersStorage s) (tip_user_id payload) = Some user \<and> u_role user = DJ \<longrightarrow>
      createTip payload tipId now s = (Inl InvalidPayload, s)) \<and>
   (btree_get (usersStorage_nat s_nat) (tp_user_id payload_nat) = Some user \<and> u_role user = DJ \<longrightarrow>
      createTip_nat payload_nat tipId now s_nat = (Inl InvalidPayload, s_nat) \<and>
      createTip_gated is_regular_user payload_nat uuids now s_nat =
        Some (Inl (if is_regular_user then InvalidPayload else Unauthorized), s_nat))"
  by (simp add: createTip_def createTip_nat_def createTip_gated_def Let_def)

theorem createTip_by_DJ_witness:
  "btree_get (usersStorage tipped_state) (tip_user_id djTip) = Some nova_profile \<and>
   u_role nova_profile = DJ \<and>
   createTip djTip ''t4'' 16 tipped_state = (Inl InvalidPayload, tipped_state) \<and>
   btree_get (usersStorage_nat (initial_nat scenario_users)) (tp_user_id djTip_nat) =
     Some nova_profile \<and>
   createTip_nat djTip_nat ''t4'' 16 (initial_nat scenario_users) =
     (Inl InvalidPayload, initial_nat scenario_users) \<and>
   createTip_gated True djTip_nat [''t4''] 16 (initial_nat scenario_users) =
     Some (Inl InvalidPayload, initial_nat scenario_users)"
proof -
  have a: "btree_get (usersStorage tipped_state) (tip_user_id djTip) = Some nova_profile"
    unfolding tipped_state_eq by (simp add: scenario_defs btree_get_def)
  have b: "u_role nova_profile = DJ"
    by (simp add: nova_profile_def)
  have c: "btree_get (usersStorage_nat (initial_nat scenario_users)) (tp_user_id djTip_nat) =
     Some nova_profile"
    by (simp add: scenario_defs btree_get_def)
  from createTip_by_DJ
    [of tipped_state djTip nova_profile "''t4''" 16 "initial_nat scenario_users" djTip_nat
        True "[''t4'']"]
  show ?thesis
    using a b c by simp
qed

subsection \<open>Empty results are errors\<close>

text \<open>
  Claim C7. \<^verbatim>\<open>getLeaderboard\<close> on a leaderboard store without entries returns \<open>NotFound\<close>,
  and never returns an empty list as a success; \<^verbatim>\<open>searchDJsByRating\<close> returns \<open>NotFound\<close>
  whenever the list of DJs it resolved is empty, and never returns an empty list as a
  success (float64 revision).
\<close>

theorem empty_results:
  "(leaderboardStorage s = [] \<longrightarrow> getLeaderboard s = Inl NotFound) \<and>
   getLeaderboard s \<noteq> Inr [] \<and>
   (resolveDJs (map dj_name (filter (\<lambda>entry. avg_rating entry \<ge> rating)
        (btree_values (leaderboardStorage s)))) (usersStorage s) = [] \<longrightarrow>
      searchDJsByRating rating s = Inl NotFound) \<and>
   searchDJsByRating rating s \<noteq> Inr []"
  by (simp add: getLeaderboard_def searchDJsByRating_def btree_values_def Let_def)

theorem empty_results_witness:
  "leaderboardStorage (initial scenario_users) = [] \<and>
   getLeaderboard (initial scenario_users) = Inl NotFound \<and>
   resolveDJs (map dj_name (filter (\<lambda>entry. avg_rating entry \<ge> 41 / 10)
        (btree_values (leaderboardStorage nova_state)))) (usersStorage nova_state) = [] \<and>
   searchDJsByRating (41 / 10) nova_state = Inl NotFound"
proof -
  have a: "leaderboardStorage (initial scenario_users) = []"
    by (simp add: initial_def)
  have b: "resolveDJs (map dj_name (filter (\<lambda>entry. avg_rating entry \<ge> 41 / 10)
        (btree_values (leaderboardStorage nova_state)))) (usersStorage nova_state) = []"
    unfolding nova_state_eq by (simp add: btree_values_def)
  from empty_results [of "initial scenario_users" "41 / 10"] empty_results [of nova_state "41 / 10"]
  show ?thesis
    using a b by simp
qed

subsection \<open>The scenario\<close>

lemma top_DJs_singleton:
  "leaderboardStorage_nat s = [(k, e)] \<Longrightarrow> getLeaderboardForTopDJs s = Inr [e]"
  by (simp add: getLeaderboardForTopDJs_def btree_values_def)

text \<open>
  Claim C3. After the tips 10, 5, 20 and the ratings 5, 3, 4 for DJ "Nova", who had no
  entry, the float64 leaderboard holds the single entry \<open>total_tips = 35\<close>,
  \<open>total_ratings = 3\<close>, \<open>total_rating_points = 12\<close>, \<open>avg_rating = 4\<close>. The search with
  threshold 4 returns Nova's profile, and with threshold 4.1 it returns \<open>NotFound\<close>, so
  not Nova. The ranking query exists in the nat64 revision only, where it returns the
  first five: after the same calls that store holds Nova alone and the query returns
  the one entry of Nova (whose nat64 average is 0, the update of C1).
\<close>

theorem nova_scenario:
  "btree_values (leaderboardStorage nova_state) =
     [\<lparr>dj_name = ''Nova'', total_tips = 35, total_ratings = 3, total_rating_points = 12,
       avg_rating = 4\<rparr>] \<and>
   searchDJsByRating 4 nova_state = Inr [nova_profile] \<and>
   searchDJsByRating (41 / 10) nova_state = Inl NotFound \<and>
   map dj_name_nat (btree_values (leaderboardStorage_nat nova_state_nat)) = [''Nova''] \<and>
   getLeaderboardForTopDJs nova_state_nat =
     Inr [\<lparr>dj_name_nat = ''Nova'', total_tips_nat = 35, total_ratings_nat = 3,
           avg_rating_nat = 0\<rparr>]"
  unfolding nova_state_eq
  by (simp add: getLeaderboardForTopDJs_def nova_state_nat_lb btree_values_def
      searchDJsByRating_def findDJ_def toLowerCase_def toLowerChar_def scenario_users_def
      nova_profile_def fan_profile_def)

subsection \<open>The ranking of the top DJs\<close>













lemma keyed_insert:
  assumes "keyed_by_name lb" and "dj_name_nat v = k"
  shows "keyed_by_name (btree_insert k v lb)"
proof -
  have "\<forall>p \<in> set (btree_insert k v lb). dj_name_nat (snd p) = fst p"
    using assms set_btree_insert [of k v lb]
    unfolding keyed_by_name_def list_all_iff by auto
  then show ?thesis
    using assms(1) sorted_btree_insert [of lb k v]
    unfolding keyed_by_name_def list_all_iff by simp
qed

lemma keyed_get:
  assumes "keyed_by_name lb" and "btree_get lb k = Some e"
  shows "dj_name_nat e = k"
  using assms(1) btree_get_mem [OF assms(2)]
  unfolding keyed_by_name_def list_all_iff by auto

lemma keyed_tipLeaderboard_nat:
  assumes "keyed_by_name lb"
  shows "keyed_by_name (tipLeaderboard_nat key amount lb)"
proof (cases "btree_get lb key")
  case None
  then show ?thesis using assms by (simp add: tipLeaderboard_nat_def keyed_insert)
next
  case (Some e)
  then show ?thesis
    using assms keyed_get [OF assms Some] by (simp add: tipLeaderboard_nat_def keyed_insert)
qed

lemma keyed_rateLeaderboard_nat:
  assumes "keyed_by_name lb"
  shows "keyed_by_name (rateLeaderboard_nat key rating lb)"
proof (cases "btree_get lb key")
  case None
  then show ?thesis using assms by (simp add: rateLeaderboard_nat_def keyed_insert)
next
  case (Some e)
  then show ?thesis
    using assms keyed_get [OF assms Some]
    by (simp add: rateLeaderboard_nat_def keyed_insert Let_def)
qed

lemma keyed_step_nat:
  assumes "keyed_by_name (leaderboardStorage_nat s)"
  shows "keyed_by_name (leaderboardStorage_nat (step_nat c s))"
proof (cases c)
  case (TipCall_nat p i t)
  have "leaderboardStorage_nat (step_nat c s) = leaderboardStorage_nat s \<or>
        leaderboardStorage_nat (step_nat c s) =
          tipLeaderboard_nat (tp_dj_name p) (tp_amount p) (leaderboardStorage_nat s)"
    using createTip_nat_cases [of p i t s] unfolding TipCall_nat by auto
  then show ?thesis
    using assms keyed_tipLeaderboard_nat [OF assms] by metis
next
  case (RatingCall_nat p i t)
  have "leaderboardStorage_nat (step_nat c s) = leaderboardStorage_nat s \<or>
        leaderboardStorage_nat (step_nat c s) =
          rateLeaderboard_nat (rp_dj_name p) (rp_rating p) (leaderboardStorage_nat s)"
    using createRating_nat_cases [of p i t s] unfolding RatingCall_nat by auto
  then show ?thesis
    using assms keyed_rateLeaderboard_nat [OF assms] by metis
qed

lemma keyed_run_nat:
  "keyed_by_name (leaderboardStorage_nat s) \<Longrightarrow>
   keyed_by_name (leaderboardStorage_nat (run_nat cs s))"
proof (induction cs arbitrary: s)
  case Nil
  then show ?case by simp
next
  case (Cons c cs)
  show ?case using Cons.IH [OF keyed_step_nat [OF Cons.prems]] by simp
qed

lemma keyed_reachable:
  "keyed_by_name (leaderboardStorage_nat (run_nat cs (initial_nat users)))"
  by (rule keyed_run_nat) (simp add: initial_nat_def keyed_by_name_def)












subsection \<open>The average of a sequence of ratings\<close>

text \<open>
  The float64 revision: after successful ratings of one DJ the entry counts them, sums
  them, and its average is the quotient; from no entry, the average of \<open>N\<close> ratings is
  their sum divided by \<open>N\<close>.
\<close>

lemma rateLeaderboard_stats:
  "ratingCountOf (rateLeaderboard key rating lb) key = ratingCountOf lb key + 1"
  "ratingPointsOf (rateLeaderboard key rating lb) key = ratingPointsOf lb key + rating"
  "avgRatingOf (rateLeaderboard key rating lb) key =
     rat_of_nat (ratingPointsOf lb key + rating) / rat_of_nat (ratingCountOf lb key + 1)"
  by (simp_all add: ratingCountOf_def ratingPointsOf_def avgRatingOf_def rateLeaderboard_def
      btree_get_insert Let_def split: option.splits)

lemma createRatings_Cons:
  "createRatings (c # cs) s =
     (fst (createRating (fst c) (fst (snd c)) (snd (snd c)) s) #
        fst (createRatings cs (snd (createRating (fst c) (fst (snd c)) (snd (snd c)) s))),
      snd (createRatings cs (snd (createRating (fst c) (fst (snd c)) (snd (snd c)) s))))"
  by (cases c) (simp add: split_beta)

lemma createRatings_stats:
  assumes "\<forall>c \<in> set calls. trim (rating_dj_name (fst c)) = k"
    and "\<forall>r \<in> set (fst (createRatings calls s)). \<not> isl r"
  shows "ratingCountOf (leaderboardStorage (snd (createRatings calls s))) k =
           ratingCountOf (leaderboardStorage s) k + length calls \<and>
         ratingPointsOf (leaderboardStorage (snd (createRatings calls s))) k =
           ratingPointsOf (leaderboardStorage s) k + sum_list (map (\<lambda>c. rating_value (fst c)) calls) \<and>
         (calls \<noteq> [] \<longrightarrow>
           avgRatingOf (leaderboardStorage (snd (createRatings calls s))) k =
             rat_of_nat (ratingPointsOf (leaderboardStorage (snd (createRatings calls s))) k) /
             rat_of_nat (ratingCountOf (leaderboardStorage (snd (createRatings calls s))) k))"
  using assms
proof (induction calls arbitrary: s)
  case Nil
  then show ?case by simp
next
  case (Cons c cs)
  let ?s1 = "snd (createRating (fst c) (fst (snd c)) (snd (snd c)) s)"
  from Cons.prems have ok: "\<not> isl (fst (createRating (fst c) (fst (snd c)) (snd (snd c)) s))"
    and rest: "\<forall>r \<in> set (fst (createRatings cs ?s1)). \<not> isl r"
    and key: "trim (rating_dj_name (fst c)) = k"
    and keys: "\<forall>c \<in> set cs. trim (rating_dj_name (fst c)) = k"
    by (simp_all add: createRatings_Cons)
  from ok obtain r where r: "fst (createRating (fst c) (fst (snd c)) (snd (snd c)) s) = Inr r"
    by (cases "fst (createRating (fst c) (fst (snd c)) (snd (snd c)) s)") auto
  have lb1: "leaderboardStorage ?s1 =
      rateLeaderboard k (rating_value (fst c)) (leaderboardStorage s)"
    using createRating_Inr [OF r] key by simp
  note IH = Cons.IH [OF keys rest]
  have fin: "snd (createRatings (c # cs) s) = snd (createRatings cs ?s1)"
    by (simp add: createRatings_Cons)
  show ?case
  proof (cases "cs = []")
    case True
    then show ?thesis
      unfolding fin using lb1 by (simp add: rateLeaderboard_stats)
  next
    case False
    then show ?thesis
      unfolding fin using IH lb1 by (simp add: rateLeaderboard_stats)
  qed
qed

lemma createRatings_average:
  assumes "\<forall>c \<in> set calls. trim (rating_dj_name (fst c)) = k"
    and "\<forall>r \<in> set (fst (createRatings calls s)). \<not> isl r"
    and "btree_get (leaderboardStorage s) k = None"
    and "calls \<noteq> []"
  shows "avgRatingOf (leaderboardStorage (snd (createRatings calls s))) k =
           rat_of_nat (sum_list (map (\<lambda>c. rating_value (fst c)) calls)) / rat_of_nat (length calls)"
  using createRatings_stats [OF assms(1,2)] assms(3,4)
  by (simp add: ratingCountOf_def ratingPointsOf_def)

lemma nova_ratings_average:
  "avgRatingOf (leaderboardStorage (snd (createRatings nova_rating_calls (initial scenario_users))))
     ''Nova'' = 4"
proof -
  have r: "fst (createRatings nova_rating_calls (initial scenario_users)) =
     [Inr (novaRating 5\<lparr>rating_id := ''r1'', rating_created_at := 13\<rparr>),
      Inr (novaRating 3\<lparr>rating_id := ''r2'', rating_created_at := 14\<rparr>),
      Inr (novaRating 4\<lparr>rating_id := ''r3'', rating_created_at := 15\<rparr>)]"
    by (simp add: scenario_defs eval_defs)
  have "avgRatingOf (leaderboardStorage (snd (createRatings nova_rating_calls
          (initial scenario_users)))) ''Nova'' =
        rat_of_nat (sum_list (map (\<lambda>c. rating_value (fst c)) nova_rating_calls)) /
        rat_of_nat (length nova_rating_calls)"
  proof (rule createRatings_average)
    show "\<forall>c \<in> set nova_rating_calls. trim (rating_dj_name (fst c)) = ''Nova''"
      by (simp add: nova_rating_calls_def novaRating_def trim_def isSpace_def)
    show "\<forall>r \<in> set (fst (createRatings nova_rating_calls (initial scenario_users))). \<not> isl r"
      by (simp add: r)
    show "btree_get (leaderboardStorage (initial scenario_users)) ''Nova'' = None"
      by (simp add: initial_def btree_get_def)
    show "nova_rating_calls \<noteq> []"
      by (simp add: nova_rating_calls_def)
  qed
  then show ?thesis
    by (simp add: nova_rating_calls_def novaRating_def)
qed

text \<open>
  Claim C1. After ratings \<open>r1..rN\<close> of a DJ without a prior entry, \<open>avg_rating\<close> is
  \<open>(r1 + ... + rN) / N\<close>. The nat64 revision (\<^verbatim>\<open>index.ts\<close> lines 490-514, part_001 lines
  511-535) does not do this: its update computes \<^verbatim>\<open>(avg_rating * total_ratings) /
  (total_ratings + 1n)\<close>, which leaves the new rating out and truncates. Two ratings of 5
  for Nova, who had no entry, give \<open>avg_rating = 2\<close>, not 5.
\<close>

theorem createRating_nat_average:
  "btree_get (leaderboardStorage_nat (initial_nat scenario_users)) ''Nova'' = None \<and>
   btree_values (leaderboardStorage_nat rated_twice_nat) =
     [\<lparr>dj_name_nat = ''Nova'', total_tips_nat = 0, total_ratings_nat = 2, avg_rating_nat = 2\<rparr>] \<and>
   rat_of_nat 2 \<noteq> rat_of_nat (5 + 5) / rat_of_nat 2"
  unfolding rated_twice_nat_lb by (simp add: btree_values_def btree_get_def initial_nat_def)

subsection \<open>The search by rating\<close>

text \<open>
  The float64 revision: the result lists, in leaderboard order, the DJ profile of every
  entry at or above the threshold whose name resolves; an entry whose name does not
  resolve contributes nothing.
\<close>

lemma findDJ_SomeD:
  assumes "findDJ nm users = Some u"
  shows "u \<in> set (btree_values users) \<and> u_role u = DJ \<and>
         toLowerCase (u_name u) = toLowerCase nm"
  using assms unfolding findDJ_def find_Some_iff by (metis nth_mem)

lemma resolveDJs_map_filter:
  "resolveDJs (map dj_name es) users = List.map_filter (\<lambda>e. findDJ (dj_name e) users) es"
  by (induction es) (simp_all add: List.map_filter_simps split: option.splits)

lemma set_resolveDJs:
  "set (resolveDJs djNames users) = {u. \<exists>n \<in> set djNames. findDJ n users = Some u}"
  by (induction djNames) (auto split: option.splits)

lemma searchDJsByRating_exact:
  assumes "searchDJsByRating rating s = Inr djs"
  shows "djs = List.map_filter (\<lambda>e. findDJ (dj_name e) (usersStorage s))
                 (filter (\<lambda>e. avg_rating e \<ge> rating) (btree_values (leaderboardStorage s)))"
    and "set djs = {u. \<exists>e \<in> set (btree_values (leaderboardStorage s)).
                       avg_rating e \<ge> rating \<and> findDJ (dj_name e) (usersStorage s) = Some u}"
    and "\<forall>u \<in> set djs. u \<in> set (btree_values (usersStorage s)) \<and> u_role u = DJ"
proof -
  let ?names = "map dj_name (filter (\<lambda>e. avg_rating e \<ge> rating)
                  (btree_values (leaderboardStorage s)))"
  from assms have d: "djs = resolveDJs ?names (usersStorage s)"
    by (simp add: searchDJsByRating_def Let_def split: if_splits)
  show "djs = List.map_filter (\<lambda>e. findDJ (dj_name e) (usersStorage s))
                 (filter (\<lambda>e. avg_rating e \<ge> rating) (btree_values (leaderboardStorage s)))"
    unfolding d by (rule resolveDJs_map_filter)
  show "set djs = {u. \<exists>e \<in> set (btree_values (leaderboardStorage s)).
                       avg_rating e \<ge> rating \<and> findDJ (dj_name e) (usersStorage s) = Some u}"
    unfolding d set_resolveDJs by auto
  then show "\<forall>u \<in> set djs. u \<in> set (btree_values (usersStorage s)) \<and> u_role u = DJ"
    using findDJ_SomeD by blast
qed

text \<open>
  Claim C8. The search returns the DJ profiles of the entries at or above the threshold
  and leaves out an entry whose DJ does not resolve. The nat64 revision (\<^verbatim>\<open>index.ts\<close>
  lines 595-608, part_001 lines 616-629) does not do this: it looks the profile up with
  \<^verbatim>\<open>usersStorage.get(entry.dj_name).Some\<close>, the DJ's name used as a user id, and keeps
  \<^verbatim>\<open>undefined\<close> for an entry that is not found. After one rating of 5 for Nova, whose
  DJ profile is stored under the id \<open>u2\<close>, the search with threshold 4 returns a list
  whose only element is \<^verbatim>\<open>undefined\<close>.
\<close>

theorem searchDJsByRating_nat_undefined:
  "btree_values (leaderboardStorage_nat rated_once_nat) =
     [\<lparr>dj_name_nat = ''Nova'', total_tips_nat = 0, total_ratings_nat = 1, avg_rating_nat = 5\<rparr>] \<and>
   btree_get (usersStorage_nat rated_once_nat) ''u2'' = Some nova_profile \<and>
   u_role nova_profile = DJ \<and> u_name nova_profile = ''Nova'' \<and>
   searchDJsByRating_nat 4 rated_once_nat = Inr [None]"
  unfolding rated_once_nat_eq
  by (simp add: searchDJsByRating_nat_def btree_values_def btree_get_def scenario_users_def
      nova_profile_def)

end
